theory Spec2Isabelle
  imports Main "HOL-Library.Word"
begin

section \<open>The stdio shim of CSwiftLogAndroidSupport\<close>

text \<open>
  The repository's C code is \<^verbatim>\<open>include/shim.c\<close> with its header
  \<^verbatim>\<open>include/CSwiftLogAndroidSupport.h\<close>: six functions, each of which hands its
  arguments to one facility of the platform's \<^verbatim>\<open><stdio.h>\<close> and hands the answer back.

  The platform's stdio is not part of the repository. It is a parameter of the model: a
  record of six operations over an arbitrary runtime state \<open>'w\<close> (which holds whatever
  the C runtime holds: memory, stream buffers, lock owners, the error indicators,
  \<^verbatim>\<open>errno\<close>). Every theorem below holds for every such record. Where the calling
  thread matters, a platform is a family \<open>P\<close> of such records: \<open>P t\<close> has the
  operations as thread \<open>t\<close> executes them.
\<close>

subsection \<open>C types\<close>

text \<open>
  \<^verbatim>\<open>void *\<close> is a type variable \<open>'p\<close>: the shim never inspects a pointer, and the
  implicit conversions between \<^verbatim>\<open>void *\<close> and \<^verbatim>\<open>FILE *\<close> at the calls and returns keep
  the address. \<^verbatim>\<open>size_t\<close> is a type variable \<open>'n\<close> as well: the shim does no arithmetic
  on a size or a count. Where a statement compares counts, \<open>'n\<close> is an unsigned machine
  word \<open>'s word\<close> of the ABI's width (32 or 64 bits on Android). \<^verbatim>\<open>int\<close> is 32 bits wide
  on every Android ABI. The parameter \<^verbatim>\<open>size\<close> is written \<open>size'\<close>, since HOL has a
  constant of that name.
\<close>

type_synonym c_int = "32 word"

subsection \<open>The platform's stdio, as a parameter\<close>

text \<open>
  \<^verbatim>\<open>stdout\<close> and \<^verbatim>\<open>stderr\<close> are expressions of \<^verbatim>\<open><stdio.h>\<close> that read the runtime's
  standard stream objects; they do not change the runtime state. The four functions take
  the state and return the new one. An operation that does not return to its caller (a
  \<^verbatim>\<open>flockfile\<close> that waits forever for a lock held elsewhere, undefined behaviour on a
  dangling handle) has the result \<open>None\<close>.
\<close>

record ('p, 'n, 'w) stdio =
  c_stdout :: "'w \<Rightarrow> 'p"
  c_stderr :: "'w \<Rightarrow> 'p"
  c_flockfile :: "'p \<Rightarrow> 'w \<Rightarrow> 'w option"
  c_funlockfile :: "'p \<Rightarrow> 'w \<Rightarrow> 'w option"
  c_fwrite :: "'p \<Rightarrow> 'n \<Rightarrow> 'n \<Rightarrow> 'p \<Rightarrow> 'w \<Rightarrow> ('n \<times> 'w) option"
  c_fflush :: "'p \<Rightarrow> 'w \<Rightarrow> (c_int \<times> 'w) option"

subsection \<open>C function bodies as programs over stdio\<close>

text \<open>
  A function body is a tree: \<open>Return x\<close> ends the function with the value \<open>x\<close>; every
  other node is one use of a stdio facility with its actual arguments, followed by the rest
  of the body, which receives the facility's answer. A body has no access to the runtime
  state except through these nodes.
\<close>

datatype ('p, 'n, 'a) prog =
    Return 'a
  | Stdout "'p \<Rightarrow> ('p, 'n, 'a) prog"
  | Stderr "'p \<Rightarrow> ('p, 'n, 'a) prog"
  | Flockfile 'p "('p, 'n, 'a) prog"
  | Funlockfile 'p "('p, 'n, 'a) prog"
  | Fwrite 'p 'n 'n 'p "'n \<Rightarrow> ('p, 'n, 'a) prog"
  | Fflush 'p "c_int \<Rightarrow> ('p, 'n, 'a) prog"

text \<open>One body after another: the second receives the value the first returned.\<close>

primrec seq :: "('p, 'n, 'a) prog \<Rightarrow> ('a \<Rightarrow> ('p, 'n, 'b) prog) \<Rightarrow> ('p, 'n, 'b) prog" where
  "seq (Return x) g = g x"
| "seq (Stdout k) g = Stdout (\<lambda>h. seq (k h) g)"
| "seq (Stderr k) g = Stderr (\<lambda>h. seq (k h) g)"
| "seq (Flockfile file k) g = Flockfile file (seq k g)"
| "seq (Funlockfile file k) g = Funlockfile file (seq k g)"
| "seq (Fwrite ptr size' count file k) g = Fwrite ptr size' count file (\<lambda>n. seq (k n) g)"
| "seq (Fflush file k) g = Fflush file (\<lambda>st. seq (k st) g)"

text \<open>
  Running a body on a platform \<open>L\<close> from the runtime state \<open>w\<close>: the value returned and
  the state left behind, or \<open>None\<close> when a stdio operation does not return.
\<close>

primrec run :: "('p, 'n, 'w) stdio \<Rightarrow> ('p, 'n, 'a) prog \<Rightarrow> 'w \<Rightarrow> ('a \<times> 'w) option" where
  "run L (Return x) w = Some (x, w)"
| "run L (Stdout k) w = run L (k (c_stdout L w)) w"
| "run L (Stderr k) w = run L (k (c_stderr L w)) w"
| "run L (Flockfile file k) w =
     (case c_flockfile L file w of None \<Rightarrow> None | Some w' \<Rightarrow> run L k w')"
| "run L (Funlockfile file k) w =
     (case c_funlockfile L file w of None \<Rightarrow> None | Some w' \<Rightarrow> run L k w')"
| "run L (Fwrite ptr size' count file k) w =
     (case c_fwrite L ptr size' count file w of None \<Rightarrow> None | Some (n, w') \<Rightarrow> run L (k n) w')"
| "run L (Fflush file k) w =
     (case c_fflush L file w of None \<Rightarrow> None | Some (st, w') \<Rightarrow> run L (k st) w')"

text \<open>
  The uses of stdio a body makes, in order, with the arguments it passes. A use that does
  not return is still recorded; nothing follows it.
\<close>

datatype ('p, 'n) access =
    Use_stdout
  | Use_stderr
  | Call_flockfile 'p
  | Call_funlockfile 'p
  | Call_fwrite 'p 'n 'n 'p
  | Call_fflush 'p

primrec trace :: "('p, 'n, 'w) stdio \<Rightarrow> ('p, 'n, 'a) prog \<Rightarrow> 'w \<Rightarrow> ('p, 'n) access list" where
  "trace L (Return x) w = []"
| "trace L (Stdout k) w = Use_stdout # trace L (k (c_stdout L w)) w"
| "trace L (Stderr k) w = Use_stderr # trace L (k (c_stderr L w)) w"
| "trace L (Flockfile file k) w = Call_flockfile file #
     (case c_flockfile L file w of None \<Rightarrow> [] | Some w' \<Rightarrow> trace L k w')"
| "trace L (Funlockfile file k) w = Call_funlockfile file #
     (case c_funlockfile L file w of None \<Rightarrow> [] | Some w' \<Rightarrow> trace L k w')"
| "trace L (Fwrite ptr size' count file k) w = Call_fwrite ptr size' count file #
     (case c_fwrite L ptr size' count file w of None \<Rightarrow> [] | Some (n, w') \<Rightarrow> trace L (k n) w')"
| "trace L (Fflush file k) w = Call_fflush file #
     (case c_fflush L file w of None \<Rightarrow> [] | Some (st, w') \<Rightarrow> trace L (k st) w')"

text \<open>
  One step of a thread that is executing a body: its next use of stdio, carried out by the
  platform, and what is left of the body. There is no step when the body has returned, and
  none in a state where the platform's operation cannot complete (the stream's lock is
  held by another thread): the thread waits, and may step once another thread has changed
  the state.
\<close>

primrec step :: "('p, 'n, 'w) stdio \<Rightarrow> ('p, 'n, 'a) prog \<Rightarrow> 'w \<Rightarrow> (('p, 'n, 'a) prog \<times> 'w) option" where
  "step L (Return x) w = None"
| "step L (Stdout k) w = Some (k (c_stdout L w), w)"
| "step L (Stderr k) w = Some (k (c_stderr L w), w)"
| "step L (Flockfile file k) w = map_option (Pair k) (c_flockfile L file w)"
| "step L (Funlockfile file k) w = map_option (Pair k) (c_funlockfile L file w)"
| "step L (Fwrite ptr size' count file k) w =
     map_option (\<lambda>(n, w'). (k n, w')) (c_fwrite L ptr size' count file w)"
| "step L (Fflush file k) w = map_option (\<lambda>(st, w'). (k st, w')) (c_fflush L file w)"

subsection \<open>The six functions of \<^verbatim>\<open>shim.c\<close>\<close>

text \<open>\<^verbatim>\<open>void *shim_stdout(void) { return stdout; }\<close>\<close>

definition shim_stdout :: "('p, 'n, 'p) prog" where
  "shim_stdout = Stdout Return"

text \<open>\<^verbatim>\<open>void *shim_stderr(void) { return stderr; }\<close>\<close>

definition shim_stderr :: "('p, 'n, 'p) prog" where
  "shim_stderr = Stderr Return"

text \<open>\<^verbatim>\<open>void shim_flockfile(void *file) { flockfile(file); }\<close>\<close>

definition shim_flockfile :: "'p \<Rightarrow> ('p, 'n, unit) prog" where
  "shim_flockfile file = Flockfile file (Return ())"

text \<open>\<^verbatim>\<open>void shim_funlockfile(void *file) { funlockfile(file); }\<close>\<close>

definition shim_funlockfile :: "'p \<Rightarrow> ('p, 'n, unit) prog" where
  "shim_funlockfile file = Funlockfile file (Return ())"

text \<open>
  \<^verbatim>\<open>size_t shim_fwrite(const void *ptr, size_t size, size_t count, void *file) {
    return fwrite(ptr, size, count, file); }\<close>
\<close>

definition shim_fwrite :: "'p \<Rightarrow> 'n \<Rightarrow> 'n \<Rightarrow> 'p \<Rightarrow> ('p, 'n, 'n) prog" where
  "shim_fwrite ptr size' count file = Fwrite ptr size' count file Return"

text \<open>\<^verbatim>\<open>int shim_fflush(void *file) { return fflush(file); }\<close>\<close>

definition shim_fflush :: "'p \<Rightarrow> ('p, 'n, c_int) prog" where
  "shim_fflush file = Fflush file Return"

subsection \<open>An example platform\<close>

text \<open>
  A small stdio on which the theorems are tried at concrete inputs. It stands for no
  particular C library. Handles and sizes are 64 bits wide. Each stream has a recursive
  lock: \<open>holder\<close> lists the locked streams with the owning thread and the nesting depth.
  The device accepts \<open>room\<close> more elements, so a larger write is short, and a flush
  fails with \<^verbatim>\<open>EOF\<close> (\<open>-1\<close>) while \<open>broken\<close> is set.
\<close>

record toy_runtime =
  std_out :: "64 word"
  std_err :: "64 word"
  holder :: "(64 word \<times> nat \<times> nat) list"
  room :: nat
  broken :: bool

fun toy_lock :: "nat \<Rightarrow> 64 word \<Rightarrow> (64 word \<times> nat \<times> nat) list \<Rightarrow> (64 word \<times> nat \<times> nat) list option" where
  "toy_lock t file [] = Some [(file, t, 1)]"
| "toy_lock t file ((g, owner, depth) # rest) =
     (if g = file then (if owner = t then Some ((g, owner, Suc depth) # rest) else None)
      else map_option ((#) (g, owner, depth)) (toy_lock t file rest))"

fun toy_unlock :: "nat \<Rightarrow> 64 word \<Rightarrow> (64 word \<times> nat \<times> nat) list \<Rightarrow> (64 word \<times> nat \<times> nat) list option" where
  "toy_unlock t file [] = None"
| "toy_unlock t file ((g, owner, depth) # rest) =
     (if g = file
      then (if owner = t then Some (if depth \<le> 1 then rest else (g, owner, depth - 1) # rest)
            else None)
      else map_option ((#) (g, owner, depth)) (toy_unlock t file rest))"

definition toy_fwrite :: "64 word \<Rightarrow> 64 word \<Rightarrow> 64 word \<Rightarrow> 64 word \<Rightarrow> toy_runtime \<Rightarrow> (64 word \<times> toy_runtime) option" where
  "toy_fwrite ptr size' count file w =
     (if size' = 0 then Some (0, w)
      else let n = min (unat count) (room w) in Some (of_nat n, w\<lparr>room := room w - n\<rparr>))"

definition toy_fflush :: "64 word \<Rightarrow> toy_runtime \<Rightarrow> (c_int \<times> toy_runtime) option" where
  "toy_fflush file w = Some (if broken w then - 1 else 0, w)"

text \<open>The stdio operations as thread \<open>t\<close> executes them.\<close>

definition toy :: "nat \<Rightarrow> (64 word, 64 word, toy_runtime) stdio" where
  "toy t = \<lparr>c_stdout = std_out, c_stderr = std_err,
     c_flockfile = (\<lambda>file w. map_option (\<lambda>h. w\<lparr>holder := h\<rparr>) (toy_lock t file (holder w))),
     c_funlockfile = (\<lambda>file w. map_option (\<lambda>h. w\<lparr>holder := h\<rparr>) (toy_unlock t file (holder w))),
     c_fwrite = toy_fwrite, c_fflush = toy_fflush\<rparr>"

text \<open>
  A state: no stream locked, room for two elements, flushing fails. And the same state with
  the standard-output stream locked once by thread 1.
\<close>

definition toy_idle :: toy_runtime where
  "toy_idle = \<lparr>std_out = 0x7000, std_err = 0x7098, holder = [], room = 2, broken = True\<rparr>"

definition toy_held :: toy_runtime where
  "toy_held = toy_idle\<lparr>holder := [(0x7000, 1, 1)]\<rparr>"


section \<open>Facts about bodies and about the example platform\<close>

text \<open>
  A body followed by another runs as the first and then, from the state the first left,
  as the second; if the first does not return, neither does the whole. Its uses of stdio
  are those of the first followed by those of the second.
\<close>

lemma run_seq:
  "run L (seq p g) w = (case run L p w of None \<Rightarrow> None | Some (x, v) \<Rightarrow> run L (g x) v)"
  by (induction p arbitrary: w) (auto split: option.splits)

lemma trace_seq:
  "trace L (seq p g) w =
     trace L p w @ (case run L p w of None \<Rightarrow> [] | Some (x, v) \<Rightarrow> trace L (g x) v)"
  by (induction p arbitrary: w) (auto split: option.splits)

text \<open>The example platform's \<open>fwrite\<close> never reports more elements than were asked for.\<close>

lemma toy_fwrite_le: "toy_fwrite ptr size' count file w = Some (n, v) \<Longrightarrow> n \<le> count"
  by (auto simp: toy_fwrite_def Let_def word_le_nat_alt unat_of_nat split: if_splits)

lemmas toy_simps = toy_def toy_fwrite_def toy_fflush_def toy_idle_def toy_held_def

section \<open>Pass-through of values and effects\<close>

text \<open>
  C1. For every buffer pointer, element size, element count and stream handle, on every
  platform and from every runtime state, \<open>shim_fwrite\<close> returns exactly what the
  platform's \<open>fwrite\<close> returns for the same arguments in the same order, and leaves the
  runtime (hence the stream) in exactly the state \<open>fwrite\<close> leaves it in; it does not
  return exactly when \<open>fwrite\<close> does not.
\<close>

theorem shim_fwrite_is_fwrite:
  "run L (shim_fwrite ptr size' count file) w = c_fwrite L ptr size' count file w"
  by (simp add: shim_fwrite_def split: option.split)

text \<open>
  On the example platform: five one-byte elements are written to a device with room for
  two; through the shim the count is 2 and the room is used up.
\<close>

theorem shim_fwrite_is_fwrite_witness:
  "run (toy 1) (shim_fwrite 0x1000 1 5 0x7000) toy_idle = Some (2, toy_idle\<lparr>room := 0\<rparr>)"
  using shim_fwrite_is_fwrite [of "toy 1" "0x1000" 1 5 "0x7000" toy_idle]
  by (simp add: toy_simps)

text \<open>
  C2. For every stream handle, on every platform and from every runtime state,
  \<open>shim_fflush\<close> returns exactly the status that the platform's \<open>fflush\<close> returns for
  that handle, and leaves the runtime in exactly the state \<open>fflush\<close> leaves it in.
\<close>

theorem shim_fflush_is_fflush:
  "run L (shim_fflush file) w = c_fflush L file w"
  by (simp add: shim_fflush_def split: option.split)

text \<open>On the example platform, whose flush fails: the shim returns \<open>-1\<close>.\<close>

theorem shim_fflush_is_fflush_witness:
  "run (toy 1) (shim_fflush 0x7000) toy_idle = Some (- 1, toy_idle)"
  using shim_fflush_is_fflush [of "toy 1" "0x7000" toy_idle]
  by (simp add: toy_simps)

text \<open>
  C3. \<open>shim_stdout\<close> returns exactly the handle that reading the platform's \<open>stdout\<close>
  gives, and \<open>shim_stderr\<close> exactly the handle that reading the platform's \<open>stderr\<close>
  gives; both always return and leave the runtime state as it was.
\<close>

theorem shim_std_handles:
  "run L shim_stdout w = Some (c_stdout L w, w) \<and> run L shim_stderr w = Some (c_stderr L w, w)"
  by (simp add: shim_stdout_def shim_stderr_def)

text \<open>On the example platform the two handles are \<open>0x7000\<close> and \<open>0x7098\<close>.\<close>

theorem shim_std_handles_witness:
  "run (toy 1) shim_stdout toy_idle = Some (0x7000, toy_idle) \<and>
   run (toy 1) shim_stderr toy_idle = Some (0x7098, toy_idle)"
  using shim_std_handles [of "toy 1" toy_idle]
  by (simp add: toy_simps)

section \<open>Errors\<close>

text \<open>
  C4. Error results pass through untranslated. When the platform's \<open>fwrite\<close> reports a
  short write (a count \<open>n < count\<close>), \<open>shim_fwrite\<close> returns that same \<open>n\<close> and leaves
  the same state; when the platform's \<open>fflush\<close> returns a status other than 0,
  \<open>shim_fflush\<close> returns that same status and leaves the same state. Conversely,
  whatever count or status a shim function returns is the one the platform's operation
  returned: the shim does not remap or absorb an error and adds none of its own.
\<close>

theorem shim_errors_pass_through:
  fixes count n :: "'s::len word"
  shows
  "(c_fwrite L ptr size' count file w = Some (n, v) \<and> n < count \<longrightarrow>
      run L (shim_fwrite ptr size' count file) w = Some (n, v)) \<and>
   (c_fflush L file w = Some (st, u) \<and> st \<noteq> 0 \<longrightarrow>
      run L (shim_fflush file) w = Some (st, u)) \<and>
   (run L (shim_fwrite ptr size' count file) w = Some (n, v) \<longrightarrow>
      c_fwrite L ptr size' count file w = Some (n, v)) \<and>
   (run L (shim_fflush file) w = Some (st, u) \<longrightarrow>
      c_fflush L file w = Some (st, u))"
  by (simp add: shim_fwrite_def shim_fflush_def split: option.split)

text \<open>
  On the example platform: the write of five elements is short (2 of 5) and the flush
  fails (\<open>-1\<close>); the shim returns the 2 and the \<open>-1\<close>.
\<close>

theorem shim_errors_pass_through_witness:
  "c_fwrite (toy 1) 0x1000 1 5 0x7000 toy_idle = Some (2, toy_idle\<lparr>room := 0\<rparr>) \<and>
   (2 :: 64 word) < 5 \<and>
   run (toy 1) (shim_fwrite 0x1000 1 5 0x7000) toy_idle = Some (2, toy_idle\<lparr>room := 0\<rparr>) \<and>
   c_fflush (toy 1) 0x7000 toy_idle = Some (- 1, toy_idle) \<and> (- 1 :: c_int) \<noteq> 0 \<and>
   run (toy 1) (shim_fflush 0x7000) toy_idle = Some (- 1, toy_idle)"
proof -
  have short: "c_fwrite (toy 1) 0x1000 1 5 0x7000 toy_idle = Some (2, toy_idle\<lparr>room := 0\<rparr>) \<and>
      (2 :: 64 word) < 5"
    by (simp add: toy_simps)
  have eof: "c_fflush (toy 1) 0x7000 toy_idle = Some (- 1, toy_idle) \<and> (- 1 :: c_int) \<noteq> 0"
    by (simp add: toy_simps)
  from short eof
    shim_errors_pass_through [of "toy 1" "0x1000" 1 5 "0x7000" toy_idle 2
      "toy_idle\<lparr>room := 0\<rparr>" "- 1" toy_idle]
  show ?thesis by blast
qed

section \<open>Locking\<close>

text \<open>
  C5. For every stream handle and every thread \<open>t\<close> of every platform \<open>P\<close>,
  \<open>shim_flockfile\<close> and \<open>shim_funlockfile\<close> forward to the platform's lock and unlock
  operation on that same handle and add no coordination of their own:
  \<^item> run to completion, the call returns from exactly the states from which the platform's
    operation, executed by the same thread, returns, and leaves the state that operation
    leaves;
  \<^item> among other threads, a thread about to call the shim function and then continue with
    \<open>k\<close> can take its step in exactly the states in which the platform's operation can
    complete for that thread; the step has that operation's effect and the thread goes on
    with \<open>k\<close>, so whether the thread waits or proceeds and who owns the lock afterwards
    is decided by the platform's operation alone;
  \<^item> the one use of stdio made is the platform's operation on the handle given.
\<close>

theorem shim_locks_forward:
  "run (P t) (shim_flockfile file) w = map_option (Pair ()) (c_flockfile (P t) file w) \<and>
   run (P t) (shim_funlockfile file) w = map_option (Pair ()) (c_funlockfile (P t) file w) \<and>
   step (P t) (seq (shim_flockfile file) k) w = map_option (Pair (k ())) (c_flockfile (P t) file w) \<and>
   step (P t) (seq (shim_funlockfile file) k) w = map_option (Pair (k ())) (c_funlockfile (P t) file w) \<and>
   trace (P t) (shim_flockfile file) w = [Call_flockfile file] \<and>
   trace (P t) (shim_funlockfile file) w = [Call_funlockfile file]"
  by (simp add: shim_flockfile_def shim_funlockfile_def split: option.split)

text \<open>
  On the example platform, with the standard-output stream locked once by thread 1: through
  the shim, thread 1 locks it a second time (depth 2) or releases it; thread 2, about to
  lock it and then flush, has no step and waits; once the stream is free, thread 2 gets
  the lock.
\<close>

theorem shim_locks_forward_witness:
  "run (toy 1) (shim_flockfile 0x7000) toy_held =
     Some ((), toy_held\<lparr>holder := [(0x7000, 1, 2)]\<rparr>) \<and>
   run (toy 1) (shim_funlockfile 0x7000) toy_held = Some ((), toy_idle) \<and>
   step (toy 2) (seq (shim_flockfile 0x7000) (\<lambda>_. shim_fflush 0x7000)) toy_held = None \<and>
   run (toy 2) (shim_flockfile 0x7000) toy_idle =
     Some ((), toy_idle\<lparr>holder := [(0x7000, 2, 1)]\<rparr>) \<and>
   trace (toy 2) (shim_flockfile 0x7000) toy_held = [Call_flockfile 0x7000]"
proof -
  have again: "c_flockfile (toy 1) 0x7000 toy_held = Some (toy_held\<lparr>holder := [(0x7000, 1, 2)]\<rparr>)"
    by (simp add: toy_simps)
  have release: "c_funlockfile (toy 1) 0x7000 toy_held = Some toy_idle"
    by (simp add: toy_simps)
  have waits: "c_flockfile (toy 2) 0x7000 toy_held = None"
    by (simp add: toy_simps)
  have free: "c_flockfile (toy 2) 0x7000 toy_idle = Some (toy_idle\<lparr>holder := [(0x7000, 2, 1)]\<rparr>)"
    by (simp add: toy_simps)
  from again release waits free
    shim_locks_forward [of toy 1 "0x7000" toy_held Return]
    shim_locks_forward [of toy 2 "0x7000" toy_held "\<lambda>_. shim_fflush 0x7000"]
    shim_locks_forward [of toy 2 "0x7000" toy_idle Return]
  show ?thesis by simp
qed

section \<open>No state and no behaviour of the shim's own\<close>

text \<open>
  C6. The shim keeps no state of its own and adds no behaviour. Take any call of any of
  the six functions, wherever it occurs: after an arbitrary body \<open>p\<close> (earlier shim calls
  included) that left the runtime in state \<open>v\<close>. Then
  \<^item> the call returns what its one stdio operation returns from \<open>v\<close> and leaves the
    state that operation leaves (the two getters leave \<open>v\<close> itself), so nothing is read
    or modified but what that operation reads or modifies, and nothing of \<open>p\<close> is
    remembered except through \<open>v\<close>;
  \<^item> the call adds exactly one use of stdio to those of \<open>p\<close>: the operation it forwards
    to, with the stream handle and the other arguments as they were given. No handle is
    opened, closed or changed: the handle the getters return is the platform's, and the
    handle the platform receives is the caller's.
  With \<open>p = Return ()\<close> these are the statements about a call on its own.
\<close>

theorem shim_frame:
  "run L (seq p (\<lambda>_. shim_stdout)) w =
     (case run L p w of None \<Rightarrow> None | Some (x, v) \<Rightarrow> Some (c_stdout L v, v)) \<and>
   run L (seq p (\<lambda>_. shim_stderr)) w =
     (case run L p w of None \<Rightarrow> None | Some (x, v) \<Rightarrow> Some (c_stderr L v, v)) \<and>
   run L (seq p (\<lambda>_. shim_flockfile file)) w =
     (case run L p w of None \<Rightarrow> None
      | Some (x, v) \<Rightarrow> map_option (Pair ()) (c_flockfile L file v)) \<and>
   run L (seq p (\<lambda>_. shim_funlockfile file)) w =
     (case run L p w of None \<Rightarrow> None
      | Some (x, v) \<Rightarrow> map_option (Pair ()) (c_funlockfile L file v)) \<and>
   run L (seq p (\<lambda>_. shim_fwrite ptr size' count file)) w =
     (case run L p w of None \<Rightarrow> None | Some (x, v) \<Rightarrow> c_fwrite L ptr size' count file v) \<and>
   run L (seq p (\<lambda>_. shim_fflush file)) w =
     (case run L p w of None \<Rightarrow> None | Some (x, v) \<Rightarrow> c_fflush L file v) \<and>
   trace L (seq p (\<lambda>_. shim_stdout)) w =
     trace L p w @ (case run L p w of None \<Rightarrow> [] | Some (x, v) \<Rightarrow> [Use_stdout]) \<and>
   trace L (seq p (\<lambda>_. shim_stderr)) w =
     trace L p w @ (case run L p w of None \<Rightarrow> [] | Some (x, v) \<Rightarrow> [Use_stderr]) \<and>
   trace L (seq p (\<lambda>_. shim_flockfile file)) w =
     trace L p w @ (case run L p w of None \<Rightarrow> [] | Some (x, v) \<Rightarrow> [Call_flockfile file]) \<and>
   trace L (seq p (\<lambda>_. shim_funlockfile file)) w =
     trace L p w @ (case run L p w of None \<Rightarrow> [] | Some (x, v) \<Rightarrow> [Call_funlockfile file]) \<and>
   trace L (seq p (\<lambda>_. shim_fwrite ptr size' count file)) w =
     trace L p w @
       (case run L p w of None \<Rightarrow> [] | Some (x, v) \<Rightarrow> [Call_fwrite ptr size' count file]) \<and>
   trace L (seq p (\<lambda>_. shim_fflush file)) w =
     trace L p w @ (case run L p w of None \<Rightarrow> [] | Some (x, v) \<Rightarrow> [Call_fflush file])"
  by (simp add: run_seq trace_seq shim_stdout_def shim_stderr_def shim_flockfile_def
      shim_funlockfile_def shim_fwrite_def shim_fflush_def split: option.split)

text \<open>
  On the example platform: a short write through the shim followed by a flush through the
  shim leaves the state the write left and makes the two uses of stdio, in order; a
  flush followed by \<open>shim_stdout\<close> returns the platform's handle.
\<close>

theorem shim_frame_witness:
  "run (toy 1) (seq (shim_fwrite 0x1000 1 5 0x7000) (\<lambda>_. shim_fflush 0x7000)) toy_idle =
     Some (- 1, toy_idle\<lparr>room := 0\<rparr>) \<and>
   trace (toy 1) (seq (shim_fwrite 0x1000 1 5 0x7000) (\<lambda>_. shim_fflush 0x7000)) toy_idle =
     [Call_fwrite 0x1000 1 5 0x7000, Call_fflush 0x7000] \<and>
   run (toy 1) (seq (shim_fflush 0x7000) (\<lambda>_. shim_stdout)) toy_idle = Some (0x7000, toy_idle)"
proof -
  have first: "run (toy 1) (shim_fwrite 0x1000 1 5 0x7000) toy_idle =
      Some (2, toy_idle\<lparr>room := 0\<rparr>)"
    by (simp add: shim_fwrite_def toy_simps)
  have first_trace: "trace (toy 1) (shim_fwrite 0x1000 1 5 0x7000) toy_idle =
      [Call_fwrite 0x1000 1 5 0x7000]"
    by (simp add: shim_fwrite_def toy_simps)
  have flush: "c_fflush (toy 1) 0x7000 (toy_idle\<lparr>room := 0\<rparr>) =
      Some (- 1, toy_idle\<lparr>room := 0\<rparr>)"
    by (simp add: toy_simps)
  have flush_run: "run (toy 1) (shim_fflush 0x7000) toy_idle = Some (- 1, toy_idle)"
    by (simp add: shim_fflush_def toy_simps)
  have out: "c_stdout (toy 1) toy_idle = 0x7000"
    by (simp add: toy_simps)
  from first first_trace flush
    shim_frame [of "toy 1" "shim_fwrite 0x1000 1 5 0x7000" toy_idle "0x7000"]
  have one:
    "run (toy 1) (seq (shim_fwrite 0x1000 1 5 0x7000) (\<lambda>_. shim_fflush 0x7000)) toy_idle =
       Some (- 1, toy_idle\<lparr>room := 0\<rparr>) \<and>
     trace (toy 1) (seq (shim_fwrite 0x1000 1 5 0x7000) (\<lambda>_. shim_fflush 0x7000)) toy_idle =
       [Call_fwrite 0x1000 1 5 0x7000, Call_fflush 0x7000]"
    by simp
  from flush_run out shim_frame [of "toy 1" "shim_fflush 0x7000" toy_idle]
  have two:
    "run (toy 1) (seq (shim_fflush 0x7000) (\<lambda>_. shim_stdout)) toy_idle = Some (0x7000, toy_idle)"
    by simp
  from one two show ?thesis by simp
qed

section \<open>The two getters are deterministic\<close>

text \<open>
  C8. In a fixed runtime state, two calls of \<open>shim_stdout\<close> (one after the other, which
  leaves the state fixed) return equal handles, and so do two calls of \<open>shim_stderr\<close>.
  The handle depends on the runtime's standard stream object and on nothing else: the
  function takes no argument, its only use of stdio is the read of \<open>stdout\<close> (of
  \<open>stderr\<close>), and in any two states, even of two platforms, in which that read gives
  the same handle, the function returns the same handle.
\<close>

theorem shim_std_deterministic:
  "run L (seq shim_stdout (\<lambda>a. seq shim_stdout (\<lambda>b. Return (a, b)))) w =
     Some ((c_stdout L w, c_stdout L w), w) \<and>
   run L (seq shim_stderr (\<lambda>a. seq shim_stderr (\<lambda>b. Return (a, b)))) w =
     Some ((c_stderr L w, c_stderr L w), w) \<and>
   trace L shim_stdout w = [Use_stdout] \<and>
   trace L shim_stderr w = [Use_stderr] \<and>
   (c_stdout L w = c_stdout L' w' \<longrightarrow>
      map_option fst (run L shim_stdout w) = map_option fst (run L' shim_stdout w')) \<and>
   (c_stderr L w = c_stderr L' w' \<longrightarrow>
      map_option fst (run L shim_stderr w) = map_option fst (run L' shim_stderr w'))"
  by (simp add: shim_stdout_def shim_stderr_def)

text \<open>
  On the example platform: thread 1 in the idle state and thread 2 in the state with a
  held lock see the same standard streams, and get the same handles from the shim; two
  calls in a row return \<open>0x7000\<close> twice.
\<close>

theorem shim_std_deterministic_witness:
  "c_stdout (toy 1) toy_idle = c_stdout (toy 2) toy_held \<and>
   c_stderr (toy 1) toy_idle = c_stderr (toy 2) toy_held \<and> toy_idle \<noteq> toy_held \<and>
   map_option fst (run (toy 1) shim_stdout toy_idle) =
     map_option fst (run (toy 2) shim_stdout toy_held) \<and>
   map_option fst (run (toy 1) shim_stderr toy_idle) =
     map_option fst (run (toy 2) shim_stderr toy_held) \<and>
   run (toy 1) (seq shim_stdout (\<lambda>a. seq shim_stdout (\<lambda>b. Return (a, b)))) toy_idle =
     Some ((0x7000, 0x7000), toy_idle)"
proof -
  have same: "c_stdout (toy 1) toy_idle = c_stdout (toy 2) toy_held \<and>
      c_stderr (toy 1) toy_idle = c_stderr (toy 2) toy_held \<and> toy_idle \<noteq> toy_held"
    by (simp add: toy_simps)
  have out: "c_stdout (toy 1) toy_idle = 0x7000"
    by (simp add: toy_simps)
  from same out shim_std_deterministic [of "toy 1" toy_idle "toy 2" toy_held]
  show ?thesis by simp
qed

section \<open>Termination\<close>

text \<open>
  C9. Every shim function is total relative to its stdio operation. On every platform and
  from every state, each of the six makes exactly one use of stdio, the same whatever the
  platform answers: the operation it forwards to (for the two getters, the one evaluation
  of the expression \<open>stdout\<close> or \<open>stderr\<close>). The two getters always return; each of
  the other four returns whenever its one stdio call returns. (That the bodies have no
  branch, loop or recursion is what their definitions show: one node and \<open>Return\<close>.)
\<close>

theorem shim_total:
  "trace L shim_stdout w = [Use_stdout] \<and>
   trace L shim_stderr w = [Use_stderr] \<and>
   trace L (shim_flockfile file) w = [Call_flockfile file] \<and>
   trace L (shim_funlockfile file) w = [Call_funlockfile file] \<and>
   trace L (shim_fwrite ptr size' count file) w = [Call_fwrite ptr size' count file] \<and>
   trace L (shim_fflush file) w = [Call_fflush file] \<and>
   (\<exists>r. run L shim_stdout w = Some r) \<and>
   (\<exists>r. run L shim_stderr w = Some r) \<and>
   ((\<exists>v. c_flockfile L file w = Some v) \<longrightarrow> (\<exists>r. run L (shim_flockfile file) w = Some r)) \<and>
   ((\<exists>v. c_funlockfile L file w = Some v) \<longrightarrow>
      (\<exists>r. run L (shim_funlockfile file) w = Some r)) \<and>
   ((\<exists>v. c_fwrite L ptr size' count file w = Some v) \<longrightarrow>
      (\<exists>r. run L (shim_fwrite ptr size' count file) w = Some r)) \<and>
   ((\<exists>v. c_fflush L file w = Some v) \<longrightarrow> (\<exists>r. run L (shim_fflush file) w = Some r))"
  by (auto simp: shim_stdout_def shim_stderr_def shim_flockfile_def
      shim_funlockfile_def shim_fwrite_def shim_fflush_def split: option.split)

text \<open>
  On the example platform, for thread 1 holding the standard-output lock: the four stdio
  calls return, and so do the four shim calls.
\<close>

theorem shim_total_witness:
  "(\<exists>v. c_flockfile (toy 1) 0x7000 toy_held = Some v) \<and>
   (\<exists>v. c_funlockfile (toy 1) 0x7000 toy_held = Some v) \<and>
   (\<exists>v. c_fwrite (toy 1) 0x1000 1 5 0x7000 toy_held = Some v) \<and>
   (\<exists>v. c_fflush (toy 1) 0x7000 toy_held = Some v) \<and>
   (\<exists>r. run (toy 1) (shim_flockfile 0x7000) toy_held = Some r) \<and>
   (\<exists>r. run (toy 1) (shim_funlockfile 0x7000) toy_held = Some r) \<and>
   (\<exists>r. run (toy 1) (shim_fwrite 0x1000 1 5 0x7000) toy_held = Some r) \<and>
   (\<exists>r. run (toy 1) (shim_fflush 0x7000) toy_held = Some r) \<and>
   trace (toy 1) (shim_fwrite 0x1000 1 5 0x7000) toy_held = [Call_fwrite 0x1000 1 5 0x7000]"
proof -
  have returns: "(\<exists>v. c_flockfile (toy 1) 0x7000 toy_held = Some v) \<and>
      (\<exists>v. c_funlockfile (toy 1) 0x7000 toy_held = Some v) \<and>
      (\<exists>v. c_fwrite (toy 1) 0x1000 1 5 0x7000 toy_held = Some v) \<and>
      (\<exists>v. c_fflush (toy 1) 0x7000 toy_held = Some v)"
    by (simp add: toy_simps)
  from returns shim_total [of "toy 1" toy_held "0x7000" "0x1000" 1 5]
  show ?thesis by blast
qed

section \<open>The count written\<close>




end
